theory Spec2Isabelle
  imports Complex_Main "HOL-Library.Multiset"
begin

section \<open>JavaScript values\<close>

text \<open>
  The source is JavaScript.  Its numbers are modelled as reals (and as integers where the
  source rounds), so the results below are about the documented formulas in exact
  arithmetic; the infinities are not represented, and NaN is represented where a lookup
  in a table can produce it.  A field that may be \<open>null\<close> or \<open>undefined\<close> is an
  \<open>option\<close>.  A \<open>Date\<close> is its number of milliseconds since the Unix epoch.
  \<open>Math.log10\<close> is taken at positive arguments (valuations are not negative).
\<close>

datatype js_error = TypeError

text \<open>\<open>v || d\<close> for a number that may be missing: \<open>undefined\<close>, \<open>null\<close> and \<open>0\<close> are falsy.\<close>

definition orDefault :: "real option \<Rightarrow> real \<Rightarrow> real" where
  "orDefault v d = (case v of None \<Rightarrow> d | Some x \<Rightarrow> if x = 0 then d else x)"

text \<open>
  An object literal used as a lookup table is a map on its own keys, but \<open>table[key]\<close>
  also finds what the object inherits from \<open>Object.prototype\<close>: eleven functions and the
  prototype itself, all of them truthy objects that are no entry of the table.
\<close>

definition Object_prototype_names :: "string list" where
  "Object_prototype_names =
     [''constructor'', ''__defineGetter__'', ''__defineSetter__'', ''hasOwnProperty'',
      ''__lookupGetter__'', ''__lookupSetter__'', ''isPrototypeOf'', ''propertyIsEnumerable'',
      ''toString'', ''valueOf'', ''__proto__'', ''toLocaleString'']"

datatype 'a property = Undefined | Own 'a | Inherited

definition getProperty :: "(string \<rightharpoonup> 'a) \<Rightarrow> string \<Rightarrow> 'a property" where
  "getProperty obj key =
     (case obj key of
        Some v \<Rightarrow> Own v
      | None \<Rightarrow> if key \<in> set Object_prototype_names then Inherited else Undefined)"

text \<open>
  A value used as a number: a number, or something that arithmetic turns into NaN
  (\<open>undefined\<close>, a function, a plain object).  NaN absorbs in \<open>*\<close> and \<open>+\<close>.
\<close>

datatype jsnum = Num real | NaN

fun jsTimes :: "jsnum \<Rightarrow> jsnum \<Rightarrow> jsnum" where
  "jsTimes (Num a) (Num b) = Num (a * b)"
| "jsTimes _ _ = NaN"

fun jsPlus :: "jsnum \<Rightarrow> jsnum \<Rightarrow> jsnum" where
  "jsPlus (Num a) (Num b) = Num (a + b)"
| "jsPlus _ _ = NaN"

text \<open>
  \<open>table[key] || d\<close> for a table of numbers: the default is taken for a missing key and
  for an entry 0, not for an inherited property.
\<close>

definition propertyOr :: "(string \<rightharpoonup> real) \<Rightarrow> string \<Rightarrow> real \<Rightarrow> jsnum" where
  "propertyOr table key d =
     (case getProperty table key of
        Undefined \<Rightarrow> Num d
      | Own v \<Rightarrow> Num (if v = 0 then d else v)
      | Inherited \<Rightarrow> NaN)"

text \<open>\<open>Math.round\<close> rounds to the nearest integer, halves upwards.\<close>

definition Math_round :: "real \<Rightarrow> int" where
  "Math_round x = \<lfloor>x + 1 / 2\<rfloor>"

definition Math_log10 :: "real \<Rightarrow> real" where
  "Math_log10 x = log 10 x"

text \<open>\<open>x.toFixed(n)\<close>, by the number its decimal string denotes.\<close>

definition toFixed :: "real \<Rightarrow> nat \<Rightarrow> real" where
  "toFixed x n = of_int \<lfloor>x * 10 ^ n + 1 / 2\<rfloor> / 10 ^ n"

section \<open>Attribution model: constants and tables\<close>

definition AI_ERA_START :: int where
  "AI_ERA_START = 1669766400000"  \<comment> \<open>\<open>new Date('2022-11-30')\<close>\<close>

definition CURRENT_DATE :: int where
  "CURRENT_DATE = 1769904000000"  \<comment> \<open>\<open>new Date('2026-02-01')\<close>\<close>

definition MONTHS_SINCE_AI_ERA :: int where
  "MONTHS_SINCE_AI_ERA =
     \<lfloor>real_of_int (CURRENT_DATE - AI_ERA_START) / (1000 * 60 * 60 * 24 * 30)\<rfloor>"

record category_info =
  cat_name :: string
  allocation :: real
  jobs_affected :: "string list"

definition DISPLACEMENT_CATEGORIES :: "(string \<times> category_info) list" where
  "DISPLACEMENT_CATEGORIES =
    [(''foundation_models'',
        \<lparr>cat_name = ''Foundation Models'', allocation = 22 / 100,
         jobs_affected = [''Software developers'', ''Content creators'', ''Analysts'']\<rparr>),
     (''coding'',
        \<lparr>cat_name = ''AI Coding Tools'', allocation = 20 / 100,
         jobs_affected = [''Software engineers'', ''QA testers'', ''DevOps'']\<rparr>),
     (''customer_service'',
        \<lparr>cat_name = ''Customer Service AI'', allocation = 18 / 100,
         jobs_affected = [''Support agents'', ''Call center reps'', ''Chat support'']\<rparr>),
     (''administrative'',
        \<lparr>cat_name = ''Administrative AI'', allocation = 12 / 100,
         jobs_affected = [''Paralegals'', ''Data entry'', ''Admin assistants'']\<rparr>),
     (''autonomous'',
        \<lparr>cat_name = ''Autonomous Systems'', allocation = 10 / 100,
         jobs_affected = [''Drivers'', ''Warehouse workers'', ''Delivery'']\<rparr>),
     (''creative'',
        \<lparr>cat_name = ''Creative AI'', allocation = 8 / 100,
         jobs_affected = [''Writers'', ''Designers'', ''Video editors'', ''Voice actors'']\<rparr>),
     (''sales_marketing'',
        \<lparr>cat_name = ''Sales & Marketing AI'', allocation = 6 / 100,
         jobs_affected = [''SDRs'', ''Marketing analysts'', ''Lead gen'']\<rparr>),
     (''analytics'',
        \<lparr>cat_name = ''Data & Analytics AI'', allocation = 3 / 100,
         jobs_affected = [''Data analysts'', ''BI developers'', ''Researchers'']\<rparr>),
     (''healthcare'',
        \<lparr>cat_name = ''Healthcare AI'', allocation = 1 / 100,
         jobs_affected = [''Medical scribes'', ''Coders'', ''Transcriptionists'']\<rparr>)]"

text \<open>
  The own entries of the two tables of multipliers.  The code reads them, and
  \<open>DISPLACEMENT_CATEGORIES\<close>, as \<open>table[key]\<close> with a key taken from the entity: the
  model reads them through \<open>getProperty\<close> and \<open>propertyOr\<close>, which also find what a
  plain object inherits.
\<close>

definition DISPLACEMENT_TYPE_MULT :: "string \<rightharpoonup> real" where
  "DISPLACEMENT_TYPE_MULT =
     [''direct'' \<mapsto> 1, ''augmentation'' \<mapsto> 4 / 10, ''infrastructure'' \<mapsto> 25 / 100]"

definition ENTERPRISE_MULT :: "string \<rightharpoonup> real" where
  "ENTERPRISE_MULT =
     [''enterprise'' \<mapsto> 1, ''prosumer'' \<mapsto> 6 / 10, ''consumer'' \<mapsto> 15 / 100]"

text \<open>An entry of the roster \<open>US_AI_COMPANIES\<close>.\<close>

record company =
  name :: string
  valuation :: real
  category :: string
  industry :: string
  founded :: int
  productLaunch :: "int option"
  displacementType :: string
  operationalStatus :: "real option"
  enterpriseLevel :: string
  notes' :: string

section \<open>Deployment maturity\<close>

definition monthsSinceLaunch :: "int \<Rightarrow> int" where
  "monthsSinceLaunch launch =
     \<lfloor>real_of_int (CURRENT_DATE - launch) / (1000 * 60 * 60 * 24 * 30)\<rfloor>"

definition effectiveMonths :: "int \<Rightarrow> int" where
  "effectiveMonths launch =
     (if launch < AI_ERA_START then min (monthsSinceLaunch launch) MONTHS_SINCE_AI_ERA
      else monthsSinceLaunch launch)"

text \<open>The adoption curve at the end of \<open>calculateDeploymentMaturity\<close>.\<close>

definition adoptionCurve :: "int \<Rightarrow> real" where
  "adoptionCurve m =
     (if m \<le> 6 then 2 / 10 + (of_int m / 6) * (3 / 10)
      else if m \<le> 12 then 5 / 10 + ((of_int m - 6) / 6) * (25 / 100)
      else if m \<le> 24 then 75 / 100 + ((of_int m - 12) / 12) * (25 / 100)
      else 1)"

definition calculateDeploymentMaturity :: "'a company_scheme \<Rightarrow> real" where
  "calculateDeploymentMaturity c =
     (case productLaunch c of
        None \<Rightarrow> 0
      | Some launch \<Rightarrow>
          if launch > CURRENT_DATE then 0 else adoptionCurve (effectiveMonths launch))"

section \<open>Displacement scores\<close>

text \<open>
  The factors as the source stores them.  Three of them come out of a table lookup and
  need not be numbers.
\<close>

record factors_info =
  categoryAllocation :: jsnum
  marketShare :: real
  deploymentMaturity :: real
  displacementTypeMult :: jsnum
  operationalFactor :: real
  enterpriseFactor :: jsnum

text \<open>\<open>{...company, factors, rawScore}\<close>\<close>

record scored = company +
  factors :: factors_info
  rawScore :: jsnum

text \<open>
  Step 1.  \<open>byCategory\<close> has one own entry for every key of \<open>DISPLACEMENT_CATEGORIES\<close>.
\<close>

definition byCategory :: "company list \<Rightarrow> string \<rightharpoonup> company list" where
  "byCategory companies =
     map_of (map (\<lambda>cat. (cat, filter (\<lambda>c. category c = cat) companies))
               (map fst DISPLACEMENT_CATEGORIES))"

text \<open>
  Step 2, the callback of \<open>companies.map\<close>: it warns and returns \<open>null\<close>, or throws, or
  returns the scored entity.  The guard \<open>if (!category)\<close> lets every truthy value pass,
  also what \<open>DISPLACEMENT_CATEGORIES\<close> inherits; its \<open>allocation\<close> is \<open>undefined\<close> then.
  \<open>categoryCompanies.reduce\<close> throws a TypeError unless \<open>byCategory[company.category]\<close> is
  one of the arrays of step 1.
\<close>

datatype score_outcome = Dropped string | Threw js_error | Scored scored

definition scoreCompany :: "company list \<Rightarrow> company \<Rightarrow> score_outcome" where
  "scoreCompany companies c =
     (case getProperty (map_of DISPLACEMENT_CATEGORIES) (category c) of
        Undefined \<Rightarrow> Dropped (''Unknown category: '' @ category c @ '' for '' @ name c)
      | found \<Rightarrow>
          let categoryAllocation' =
                (case found of Own cat \<Rightarrow> Num (allocation cat) | _ \<Rightarrow> NaN)
          in (case getProperty (byCategory companies) (category c) of
                Own categoryCompanies \<Rightarrow>
                  let categoryTotalVal =
                        foldl (\<lambda>sum c'. sum + Math_log10 (valuation c' + 1)) 0
                          categoryCompanies;
                      companyVal = Math_log10 (valuation c + 1);
                      marketShare' =
                        (if categoryTotalVal > 0 then companyVal / categoryTotalVal else 0);
                      deploymentMaturity' = calculateDeploymentMaturity c;
                      displacementTypeMult' =
                        propertyOr DISPLACEMENT_TYPE_MULT (displacementType c) (5 / 10);
                      operationalFactor' = orDefault (operationalStatus c) 1;
                      enterpriseFactor' =
                        propertyOr ENTERPRISE_MULT (enterpriseLevel c) (6 / 10);
                      rawScore' =
                        jsTimes
                          (jsTimes
                             (jsTimes
                                (jsTimes (jsTimes categoryAllocation' (Num marketShare'))
                                   (Num deploymentMaturity'))
                                displacementTypeMult')
                             (Num operationalFactor'))
                          enterpriseFactor'
                  in Scored (company.extend c
                       (scored.fields
                          \<lparr>categoryAllocation = categoryAllocation',
                           marketShare = marketShare',
                           deploymentMaturity = deploymentMaturity',
                           displacementTypeMult = displacementTypeMult',
                           operationalFactor = operationalFactor',
                           enterpriseFactor = enterpriseFactor'\<rparr>
                          rawScore'))
              | _ \<Rightarrow> Threw TypeError))"

text \<open>
  \<open>companies.map(...).filter(Boolean)\<close>: the first callback that throws ends the whole
  function; otherwise the entities that were not dropped, in the order of the roster.
\<close>

fun collectScored :: "score_outcome list \<Rightarrow> js_error + scored list" where
  "collectScored [] = Inr []"
| "collectScored (Threw e # rest) = Inl e"
| "collectScored (Dropped w # rest) = collectScored rest"
| "collectScored (Scored s # rest) =
     (case collectScored rest of Inl e \<Rightarrow> Inl e | Inr scoredList \<Rightarrow> Inr (s # scoredList))"

definition scoredCompanies :: "company list \<Rightarrow> js_error + scored list" where
  "scoredCompanies companies = collectScored (map (scoreCompany companies) companies)"

text \<open>The lines that \<open>console.warn\<close> writes when no callback throws.\<close>

definition warnings :: "company list \<Rightarrow> string list" where
  "warnings companies =
     List.map_filter (\<lambda>c. case scoreCompany companies c of Dropped w \<Rightarrow> Some w | _ \<Rightarrow> None)
       companies"

definition totalRaw :: "scored list \<Rightarrow> jsnum" where
  "totalRaw scoredList = foldl (\<lambda>sum c. jsPlus sum (rawScore c)) (Num 0) scoredList"

text \<open>
  The display strings of a result row, by their parts: the numbers that \<open>toFixed\<close> prints
  (before the suffixes \<open>'% pool'\<close> and \<open>'%'\<close>) and the two copied strings.
\<close>

record display_info =
  d_category :: jsnum
  d_marketShare :: real
  d_maturity :: real
  d_type :: string
  d_operational :: real
  d_market :: string

record normalized =
  r_name :: string
  r_industry :: string
  r_category :: string
  r_valuation :: real
  displacement :: int
  percentage :: real
  r_factors :: display_info
  rawFactors :: factors_info
  r_notes :: string

text \<open>\<open>{rank: index + 1, ...company}\<close>\<close>

record ranked = normalized +
  rank :: nat

text \<open>
  Step 3, the callback of \<open>scored.map\<close>.  \<open>totalRaw > 0\<close> is false for NaN.  When
  \<open>totalRaw\<close> is a number, every raw score of the list is one (lemma
  \<open>totalRaw_Num\<close>), so no entity of the list meets the case \<open>NaN\<close> of its raw score.
\<close>

definition normalizeCompany :: "real \<Rightarrow> jsnum \<Rightarrow> scored \<Rightarrow> normalized" where
  "normalizeCompany totalDisplacement totalRaw' c =
     (let percentage' =
            (case totalRaw' of
               Num t \<Rightarrow>
                 if t > 0 then (case rawScore c of Num r \<Rightarrow> r / t | NaN \<Rightarrow> 0) else 0
             | NaN \<Rightarrow> 0);
          displacement' = Math_round (totalDisplacement * percentage')
      in \<lparr>r_name = name c, r_industry = industry c, r_category = category c,
          r_valuation = valuation c, displacement = displacement',
          percentage = toFixed (percentage' * 100) 2,
          r_factors =
            \<lparr>d_category =
               (case categoryAllocation (factors c) of
                  Num a \<Rightarrow> Num (toFixed (a * 100) 0)
                | NaN \<Rightarrow> NaN),
             d_marketShare = toFixed (marketShare (factors c) * 100) 1,
             d_maturity = toFixed (deploymentMaturity (factors c) * 100) 0,
             d_type = displacementType c,
             d_operational = toFixed (operationalFactor (factors c) * 100) 0,
             d_market = enterpriseLevel c\<rparr>,
          rawFactors = factors c, r_notes = notes' c\<rparr>)"

definition normalizedRows :: "real \<Rightarrow> scored list \<Rightarrow> normalized list" where
  "normalizedRows totalDisplacement scoredList =
     map (normalizeCompany totalDisplacement (totalRaw scoredList)) scoredList"

text \<open>
  Step 4 sorts with the comparator \<open>b.displacement - a.displacement\<close>; \<open>Array.prototype.sort\<close>
  is stable, as is the insertion sort \<open>sort_key\<close>.  Step 5 numbers the rows.
\<close>

definition calculateDisplacementScores :: "company list \<Rightarrow> real \<Rightarrow> js_error + ranked list" where
  "calculateDisplacementScores companies totalDisplacement =
     (case scoredCompanies companies of
        Inl e \<Rightarrow> Inl e
      | Inr scoredList \<Rightarrow>
          let normalizedList = normalizedRows totalDisplacement scoredList;
              sortedList = sort_key (\<lambda>r. - displacement r) normalizedList
          in Inr (map (\<lambda>(index, r). normalized.extend r (ranked.fields (index + 1)))
                   (enumerate 0 sortedList)))"

text \<open>\<open>verifyTotal\<close>\<close>

definition verifyTotal :: "ranked list \<Rightarrow> real \<Rightarrow> bool" where
  "verifyTotal results expectedTotal =
     (let actualTotal = foldl (\<lambda>sum c. sum + displacement c) 0 results;
          diff = \<bar>of_int actualTotal - expectedTotal\<bar>
      in diff < 100)"

section \<open>Nowcasting: configuration and live data\<close>

definition FRED_SERIES :: "(string \<times> string) list" where
  "FRED_SERIES =
     [(''total'', ''JTSLDL''), (''information'', ''JTU5100LDL''),
      (''professional'', ''JTU540099LDL''), (''manufacturing'', ''JTU3000LDL''),
      (''finance'', ''JTU5200LDL''), (''retail'', ''JTU4400LDL'')]"

record exposure =
  low :: real
  mid :: real
  high :: real
  rationale :: string

definition AI_EXPOSURE_MODEL :: "string \<rightharpoonup> exposure" where
  "AI_EXPOSURE_MODEL = map_of
     [(''information'', \<lparr>low = 12 / 100, mid = 18 / 100, high = 25 / 100,
         rationale = ''Tech sector directly impacted by AI tools replacing coding, content, support''\<rparr>),
      (''professional'', \<lparr>low = 8 / 100, mid = 12 / 100, high = 18 / 100,
         rationale = ''AI automation of legal research, accounting, consulting analysis''\<rparr>),
      (''finance'', \<lparr>low = 10 / 100, mid = 15 / 100, high = 20 / 100,
         rationale = ''Algorithmic trading, automated underwriting, AI customer service''\<rparr>),
      (''manufacturing'', \<lparr>low = 5 / 100, mid = 8 / 100, high = 12 / 100,
         rationale = ''Industrial automation, robotics (ongoing trend, not new AI)''\<rparr>),
      (''retail'', \<lparr>low = 4 / 100, mid = 6 / 100, high = 10 / 100,
         rationale = ''Self-checkout, inventory AI, but many roles still require humans''\<rparr>),
      (''other'', \<lparr>low = 3 / 100, mid = 5 / 100, high = 8 / 100,
         rationale = ''Healthcare, education, government - slower AI adoption''\<rparr>)]"

text \<open>An entry \<open>liveData.fred[key]\<close>; a field that the object lacks is \<open>None\<close>.\<close>

record series_entry =
  s_value :: "real option"
  s_average :: "real option"
  s_date :: "string option"
  s_error :: "string option"

record fred_store =
  series :: "string \<rightharpoonup> series_entry"
  fetchedAt :: "int option"
  errors :: "string list"

text \<open>
  \<open>liveData.calculated\<close>.  The three rates are the numbers of their \<open>toFixed(1)\<close> strings.
  The object written by \<open>calculateAIDisplacement\<close> has no \<open>historicalTotal\<close> and no
  \<open>confidence\<close>; the initial object has none of the optional fields before them.
\<close>

record calculated_info =
  totalMonthly :: int
  aiLow :: int
  aiMid :: int
  aiHigh :: int
  aiRateLow :: "real option"
  aiRateMid :: "real option"
  aiRateHigh :: "real option"
  perDayLow :: int
  perDayMid :: int
  perDayHigh :: int
  perSecond :: real
  historicalLow :: "int option"
  historicalMid :: "int option"
  historicalHigh :: "int option"
  daysSinceStart :: "int option"
  startDate :: "string option"
  historicalTotal :: "int option"
  confidence :: "string option"

record live_data =
  fred :: fred_store
  calculated :: calculated_info

definition liveData_initial :: live_data where
  "liveData_initial =
     \<lparr>fred =
        \<lparr>series = map_of (map (\<lambda>key.
             (key, \<lparr>s_value = None, s_average = None, s_date = None, s_error = None\<rparr>))
             [''total'', ''information'', ''professional'', ''manufacturing'', ''finance'',
              ''retail'']),
         fetchedAt = None, errors = []\<rparr>,
      calculated =
        \<lparr>totalMonthly = 0, aiLow = 0, aiMid = 0, aiHigh = 0,
         aiRateLow = None, aiRateMid = None, aiRateHigh = None,
         perDayLow = 0, perDayMid = 0, perDayHigh = 0, perSecond = 0,
         historicalLow = None, historicalMid = None, historicalHigh = None,
         daysSinceStart = None, startDate = None,
         historicalTotal = Some 0, confidence = Some ''medium''\<rparr>\<rparr>"

section \<open>Fetching\<close>

text \<open>
  What \<open>fetchFredSeries\<close> resolves to: \<open>{ error }\<close> with the message of the caught error,
  or \<open>{ latest, average, date, history }\<close>.  The request itself is outside the model: the
  refresh takes the function from series ids to these results as an argument.
\<close>

datatype fetch_result = FetchError string | FetchOk real real string "real list"

text \<open>
  The loop over \<open>results\<close> in \<open>fetchAllData\<close>.  \<open>if (result.error)\<close> tests the message for
  truthiness, so an error object with an empty message takes the other branch, where
  \<open>result.latest\<close> is \<open>undefined\<close> and \<open>result.latest.toLocaleString()\<close> throws after the
  entry was written: the loop stops there, with no list of errors (\<open>None\<close>).
\<close>

fun storeResults ::
  "(string \<times> fetch_result) list \<Rightarrow> (string \<rightharpoonup> series_entry) \<Rightarrow> string list
     \<Rightarrow> (string \<rightharpoonup> series_entry) \<times> string list option" where
  "storeResults [] fredSeries errs = (fredSeries, Some errs)"
| "storeResults ((key, FetchError msg) # rest) fredSeries errs =
     (if msg \<noteq> [] then
        storeResults rest
          (fredSeries(key \<mapsto>
             \<lparr>s_value = None, s_average = None, s_date = None, s_error = Some msg\<rparr>))
          (errs @ [key @ '': '' @ msg])
      else
        (fredSeries(key \<mapsto>
           \<lparr>s_value = None, s_average = None, s_date = None, s_error = None\<rparr>), None))"
| "storeResults ((key, FetchOk latest average date history) # rest) fredSeries errs =
     storeResults rest
       (fredSeries(key \<mapsto>
          \<lparr>s_value = Some latest, s_average = Some average, s_date = Some date,
           s_error = None\<rparr>))
       errs"

section \<open>AI displacement calculation\<close>

text \<open>\<open>fred[key]?.value\<close>\<close>

definition seriesValue :: "fred_store \<Rightarrow> string \<Rightarrow> real option" where
  "seriesValue fredStore key =
     (case series fredStore key of None \<Rightarrow> None | Some entry \<Rightarrow> s_value entry)"

text \<open>
  The loop over \<open>industries\<close>, on \<open>(aiLow, aiMid, aiHigh, knownTotal)\<close>.  Every industry of
  the list has its entry in \<open>AI_EXPOSURE_MODEL\<close> (lemma \<open>industries_modelled\<close>).
\<close>

definition industries :: "string list" where
  "industries = [''information'', ''professional'', ''finance'', ''manufacturing'', ''retail'']"

fun addIndustries ::
  "fred_store \<Rightarrow> string list \<Rightarrow> real \<times> real \<times> real \<times> real \<Rightarrow> real \<times> real \<times> real \<times> real" where
  "addIndustries fredStore [] acc = acc"
| "addIndustries fredStore (ind # rest) (lo, mi, hi, knownTotal) =
     (case seriesValue fredStore ind of
        None \<Rightarrow> addIndustries fredStore rest (lo, mi, hi, knownTotal)
      | Some v \<Rightarrow>
          if v = 0 then addIndustries fredStore rest (lo, mi, hi, knownTotal)
          else (case AI_EXPOSURE_MODEL ind of
                  None \<Rightarrow> addIndustries fredStore rest (lo, mi, hi, knownTotal)
                | Some model \<Rightarrow>
                    addIndustries fredStore rest
                      (lo + v * low model, mi + v * mid model, hi + v * high model,
                       knownTotal + v)))"

definition startDateMs :: int where
  "startDateMs = 1672531200000"  \<comment> \<open>\<open>new Date('2023-01-01')\<close>\<close>

definition otherModel :: exposure where
  "otherModel =
     \<lparr>low = 3 / 100, mid = 5 / 100, high = 8 / 100,
      rationale = ''Healthcare, education, government - slower AI adoption''\<rparr>"

definition calculateAIDisplacement :: "int \<Rightarrow> live_data \<Rightarrow> live_data" where
  "calculateAIDisplacement now ld =
     (let totalMonthly' = orDefault (seriesValue (fred ld) ''total'') 0
      in if totalMonthly' = 0 then ld
         else
           (case addIndustries (fred ld) industries (0, 0, 0, 0) of
              (lo0, mi0, hi0, knownTotal) \<Rightarrow>
                let otherSectors = max 0 (totalMonthly' - knownTotal);
                    lo = lo0 + otherSectors * low otherModel;
                    mi = mi0 + otherSectors * mid otherModel;
                    hi = hi0 + otherSectors * high otherModel;
                    perDayMid' = mi / 30;
                    perSecond' = perDayMid' / 86400;
                    days = \<lfloor>real_of_int (now - startDateMs) / (1000 * 60 * 60 * 24)\<rfloor>;
                    historicalTotal' = \<lfloor>of_int days * perDayMid'\<rfloor>
                in ld\<lparr>calculated :=
                     \<lparr>totalMonthly = Math_round totalMonthly',
                      aiLow = Math_round lo, aiMid = Math_round mi, aiHigh = Math_round hi,
                      aiRateLow = Some (toFixed (lo / totalMonthly' * 100) 1),
                      aiRateMid = Some (toFixed (mi / totalMonthly' * 100) 1),
                      aiRateHigh = Some (toFixed (hi / totalMonthly' * 100) 1),
                      perDayLow = Math_round (lo / 30),
                      perDayMid = Math_round perDayMid',
                      perDayHigh = Math_round (hi / 30),
                      perSecond = perSecond',
                      historicalLow = Some \<lfloor>of_int days * lo / 30\<rfloor>,
                      historicalMid = Some historicalTotal',
                      historicalHigh = Some \<lfloor>of_int days * hi / 30\<rfloor>,
                      daysSinceStart = Some days,
                      startDate = Some ''2023-01-01'',
                      historicalTotal = None, confidence = None\<rparr>\<rparr>))"

text \<open>
  \<open>fetchAllData\<close>: the new state, and \<open>Inr\<close> of the returned flag or \<open>Inl\<close> of the error that
  rejects the promise.  \<open>now\<close> is the clock, read for \<open>fetchedAt\<close> and again in
  \<open>calculateAIDisplacement\<close>.
\<close>

definition fetchAllData ::
  "(string \<Rightarrow> fetch_result) \<Rightarrow> int \<Rightarrow> live_data \<Rightarrow> live_data \<times> (js_error + bool)" where
  "fetchAllData fetchFredSeries now ld =
     (let results = map (\<lambda>(key, seriesId). (key, fetchFredSeries seriesId)) FRED_SERIES
      in case storeResults results (series (fred ld)) [] of
           (fredSeries, None) \<Rightarrow>
             (ld\<lparr>fred := (fred ld)\<lparr>series := fredSeries\<rparr>\<rparr>, Inl TypeError)
         | (fredSeries, Some errs) \<Rightarrow>
             (calculateAIDisplacement now
                (ld\<lparr>fred := \<lparr>series = fredSeries, fetchedAt = Some now, errors = errs\<rparr>\<rparr>),
              Inr (errs = [])))"

section \<open>Live counter\<close>

record counter =
  "value" :: int
  fraction :: real
  lastTick :: int
  initialized :: bool

definition Counter_new :: "int \<Rightarrow> counter" where
  "Counter_new now = \<lparr>value = 0, fraction = 0, lastTick = now, initialized = False\<rparr>"

text \<open>\<open>liveData.calculated.historicalMid > 0\<close>; \<open>undefined > 0\<close> is false.\<close>

definition historicalMidPositive :: "calculated_info \<Rightarrow> bool" where
  "historicalMidPositive calc = (case historicalMid calc of None \<Rightarrow> False | Some h \<Rightarrow> h > 0)"

definition initialize :: "calculated_info \<Rightarrow> counter \<Rightarrow> counter" where
  "initialize calc c =
     (case historicalMid calc of
        None \<Rightarrow> c
      | Some h \<Rightarrow> if h > 0 then c\<lparr>value := h, initialized := True\<rparr> else c)"

text \<open>\<open>while (this.fraction >= 1) { this.value++; this.fraction--; }\<close>\<close>

function carry :: "int \<Rightarrow> real \<Rightarrow> int \<times> real" where
  "carry v f = (if f \<ge> 1 then carry (v + 1) (f - 1) else (v, f))"
  by pat_completeness auto
termination
  by (relation "measure (\<lambda>(v, f). nat \<lfloor>f\<rfloor>)") (auto simp: nat_less_iff le_floor_iff)

text \<open>
  \<open>tick\<close>, given what it reads from outside: \<open>liveData.calculated\<close>, the clock \<open>Date.now()\<close>
  and the draw of \<open>Math.random()\<close>.  It returns \<open>getState()\<close> of the counter it leaves.
\<close>

definition tick :: "calculated_info \<Rightarrow> int \<Rightarrow> real \<Rightarrow> counter \<Rightarrow> counter" where
  "tick calc now random c =
     (let c1 = (if \<not> initialized c \<and> historicalMidPositive calc then initialize calc c else c);
          elapsed = real_of_int (now - lastTick c1) / 1000;
          c2 = c1\<lparr>lastTick := now\<rparr>;
          rate = orDefault (Some (perSecond calc)) 0
      in if rate > 0 then
           let jitter = 1 + (random - 5 / 10) * (2 / 10)
           in (case carry (value c2) (fraction c2 + rate * elapsed * jitter) of
                 (v, f) \<Rightarrow> c2\<lparr>value := v, fraction := f\<rparr>)
         else c2)"

text \<open>Successive ticks, each with its own clock reading and random draw.\<close>

fun ticks :: "calculated_info \<Rightarrow> (int \<times> real) list \<Rightarrow> counter \<Rightarrow> counter" where
  "ticks calc [] c = c"
| "ticks calc ((now, random) # rest) c = ticks calc rest (tick calc now random c)"

section \<open>Notions used to state the properties\<close>

text \<open>The number that a value stands for; 0 for NaN.\<close>

definition numOf :: "jsnum \<Rightarrow> real" where
  "numOf x = (case x of Num r \<Rightarrow> r | NaN \<Rightarrow> 0)"

text \<open>
  The entry that the loop of \<open>fetchAllData\<close> writes for a result, and the line it appends
  to \<open>errors\<close>, when the result is not an error with an empty message.
\<close>

definition storedEntry :: "fetch_result \<Rightarrow> series_entry" where
  "storedEntry result =
     (case result of
        FetchError msg \<Rightarrow>
          \<lparr>s_value = None, s_average = None, s_date = None, s_error = Some msg\<rparr>
      | FetchOk latest average date history \<Rightarrow>
          \<lparr>s_value = Some latest, s_average = Some average, s_date = Some date,
           s_error = None\<rparr>)"

definition newErrors :: "string \<Rightarrow> fetch_result \<Rightarrow> string list" where
  "newErrors key r = (case r of FetchError msg \<Rightarrow> [key @ '': '' @ msg] | _ \<Rightarrow> [])"

section \<open>Sample inputs\<close>

definition sampleCompany ::
  "string \<Rightarrow> real \<Rightarrow> string \<Rightarrow> int option \<Rightarrow> string \<Rightarrow> real option \<Rightarrow> string \<Rightarrow> company" where
  "sampleCompany n v cat launch dtype status level =
     \<lparr>name = n, valuation = v, category = cat, industry = ''AI'', founded = 2020,
      productLaunch = launch, displacementType = dtype, operationalStatus = status,
      enterpriseLevel = level, notes' = []\<rparr>"

text \<open>A product launched a whole number of 30-day months before \<open>CURRENT_DATE\<close>.\<close>

definition launchedMonthsAgo :: "int \<Rightarrow> company" where
  "launchedMonthsAgo k =
     sampleCompany ''Sample'' 9 ''coding'' (Some (CURRENT_DATE - k * (1000 * 60 * 60 * 24 * 30)))
       ''direct'' (Some 1) ''enterprise''"

definition launch2023 :: int where
  "launch2023 = 1672531200000"  \<comment> \<open>\<open>new Date('2023-01-01')\<close>, 37 months before \<open>CURRENT_DATE\<close>\<close>

text \<open>Three equal entities: each gets a third of the total.\<close>

definition rosterThirds :: "company list" where
  "rosterThirds =
     [sampleCompany ''A'' 9 ''coding'' (Some launch2023) ''direct'' (Some 1) ''enterprise'',
      sampleCompany ''B'' 9 ''coding'' (Some launch2023) ''direct'' (Some 1) ''enterprise'',
      sampleCompany ''C'' 9 ''coding'' (Some launch2023) ''direct'' (Some 1) ''enterprise'']"

text \<open>Two entities that differ in their operational status only: 0 and 1.\<close>

definition rosterIdle :: "company list" where
  "rosterIdle =
     [sampleCompany ''Idle'' 9 ''coding'' (Some launch2023) ''direct'' (Some 0) ''enterprise'',
      sampleCompany ''Active'' 9 ''coding'' (Some launch2023) ''direct'' (Some 1) ''enterprise'']"

text \<open>
  An entity with no launch date, a launched one, and a third one of the given category.
\<close>

definition rosterWithCategory :: "string \<Rightarrow> company list" where
  "rosterWithCategory cat =
     [sampleCompany ''Lab'' 9 ''coding'' None ''direct'' (Some 1) ''enterprise'',
      sampleCompany ''Shop'' 9 ''coding'' (Some launch2023) ''direct'' (Some 1) ''enterprise'',
      sampleCompany ''Stray'' 9 cat (Some launch2023) ''direct'' (Some 1) ''enterprise'']"

text \<open>Three entities that are equal but for the displacement type of the second.\<close>

definition rosterWithType :: "string \<Rightarrow> company list" where
  "rosterWithType dtype =
     [sampleCompany ''A'' 9 ''coding'' (Some launch2023) ''direct'' (Some 1) ''enterprise'',
      sampleCompany ''B'' 9 ''coding'' (Some launch2023) dtype (Some 1) ''enterprise'',
      sampleCompany ''C'' 9 ''coding'' (Some launch2023) ''direct'' (Some 1) ''enterprise'']"

text \<open>
  The live data when only the total series has a value, and \<open>liveData.calculated\<close> as
  \<open>calculateAIDisplacement\<close> leaves it then, run at the instant \<open>now\<close>.
\<close>

definition liveData_total :: "real \<Rightarrow> live_data" where
  "liveData_total v =
     liveData_initial\<lparr>fred := (fred liveData_initial)\<lparr>series :=
       (series (fred liveData_initial))(''total'' \<mapsto>
          \<lparr>s_value = Some v, s_average = Some v, s_date = Some ''2025-12-01'',
           s_error = None\<rparr>)\<rparr>\<rparr>"

definition calculatedAt :: "int \<Rightarrow> real \<Rightarrow> calculated_info" where
  "calculatedAt now v = calculated (calculateAIDisplacement now (liveData_total v))"

text \<open>
  Rates computed on 2026-02-01 from a total of 1500000, and then a store in which no
  series has a value.
\<close>

definition liveData_stale :: live_data where
  "liveData_stale =
     (calculateAIDisplacement 1769904000000 (liveData_total 1500000))
       \<lparr>fred := fred liveData_initial\<rparr>"

text \<open>A good value stored for the information series, and a refresh in which it fails.\<close>

definition liveData_good :: live_data where
  "liveData_good =
     liveData_initial\<lparr>fred := (fred liveData_initial)\<lparr>series :=
       (series (fred liveData_initial))(''information'' \<mapsto>
          \<lparr>s_value = Some 50000, s_average = Some 48000, s_date = Some ''2025-11-01'',
           s_error = None\<rparr>)\<rparr>\<rparr>"

definition fetchInformationFails :: "string \<Rightarrow> fetch_result" where
  "fetchInformationFails seriesId =
     (if seriesId = ''JTU5100LDL'' then FetchError ''HTTP 500''
      else FetchOk 1500000 1480000 ''2025-12-01'' [1500000, 1460000])"

section \<open>Deployment maturity: boundary values and monotonicity\<close>

lemma sampleCompany_simps [simp]:
  "name (sampleCompany n v cat launch dtype status level) = n"
  "valuation (sampleCompany n v cat launch dtype status level) = v"
  "category (sampleCompany n v cat launch dtype status level) = cat"
  "productLaunch (sampleCompany n v cat launch dtype status level) = launch"
  "displacementType (sampleCompany n v cat launch dtype status level) = dtype"
  "operationalStatus (sampleCompany n v cat launch dtype status level) = status"
  "enterpriseLevel (sampleCompany n v cat launch dtype status level) = level"
  by (simp_all add: sampleCompany_def)

lemma adoptionCurve_mono: "m1 \<le> m2 \<Longrightarrow> adoptionCurve m1 \<le> adoptionCurve m2"
  unfolding adoptionCurve_def by (auto simp: field_simps)

lemma monthsSinceLaunch_anti: "d2 \<le> d1 \<Longrightarrow> monthsSinceLaunch d1 \<le> monthsSinceLaunch d2"
  unfolding monthsSinceLaunch_def by (intro floor_mono divide_right_mono) auto

text \<open>
  The cap for products older than the AI era does not break the order: a product
  launched in the era has at most \<open>MONTHS_SINCE_AI_ERA\<close> months.
\<close>

lemma effectiveMonths_anti:
  assumes "d2 \<le> d1"
  shows "effectiveMonths d1 \<le> effectiveMonths d2"
proof -
  have m: "monthsSinceLaunch d1 \<le> monthsSinceLaunch d2"
    using assms by (rule monthsSinceLaunch_anti)
  have era: "AI_ERA_START \<le> d1 \<Longrightarrow> monthsSinceLaunch d1 \<le> MONTHS_SINCE_AI_ERA"
    unfolding monthsSinceLaunch_def MONTHS_SINCE_AI_ERA_def
    by (intro floor_mono divide_right_mono) auto
  show ?thesis using m era assms unfolding effectiveMonths_def by auto
qed

text \<open>
  C5.  For a product launched at \<open>d1\<close>, not after \<open>CURRENT_DATE\<close>: at exactly 0, 6, 12 and
  24 effective months the deployment maturity is exactly 0.2, 0.5, 0.75 and 1.0; and it
  is at most the maturity of any product launched at \<open>d2\<close> no later than \<open>d1\<close>, that is,
  with at least as much time elapsed since launch.
\<close>

theorem deploymentMaturity_boundaries_monotone:
  assumes "productLaunch c1 = Some d1" and "productLaunch c2 = Some d2"
    and "d2 \<le> d1" and "d1 \<le> CURRENT_DATE"
  shows "(effectiveMonths d1 = 0 \<longrightarrow> calculateDeploymentMaturity c1 = 2 / 10)
    \<and> (effectiveMonths d1 = 6 \<longrightarrow> calculateDeploymentMaturity c1 = 5 / 10)
    \<and> (effectiveMonths d1 = 12 \<longrightarrow> calculateDeploymentMaturity c1 = 75 / 100)
    \<and> (effectiveMonths d1 = 24 \<longrightarrow> calculateDeploymentMaturity c1 = 1)
    \<and> calculateDeploymentMaturity c1 \<le> calculateDeploymentMaturity c2"
proof -
  have m1: "calculateDeploymentMaturity c1 = adoptionCurve (effectiveMonths d1)"
    using assms by (simp add: calculateDeploymentMaturity_def)
  have m2: "calculateDeploymentMaturity c2 = adoptionCurve (effectiveMonths d2)"
    using assms by (simp add: calculateDeploymentMaturity_def)
  have "adoptionCurve (effectiveMonths d1) \<le> adoptionCurve (effectiveMonths d2)"
    using assms(3) by (intro adoptionCurve_mono effectiveMonths_anti)
  then show ?thesis
    unfolding m1 m2 by (auto simp: adoptionCurve_def)
qed

text \<open>Products launched 0, 6, 12 and 24 months of 30 days before \<open>CURRENT_DATE\<close>.\<close>

theorem deploymentMaturity_boundaries_monotone_witness:
  "calculateDeploymentMaturity (launchedMonthsAgo 0) = 2 / 10
   \<and> calculateDeploymentMaturity (launchedMonthsAgo 6) = 5 / 10
   \<and> calculateDeploymentMaturity (launchedMonthsAgo 12) = 75 / 100
   \<and> calculateDeploymentMaturity (launchedMonthsAgo 24) = 1
   \<and> calculateDeploymentMaturity (launchedMonthsAgo 6)
       \<le> calculateDeploymentMaturity (launchedMonthsAgo 24)"
  using
    deploymentMaturity_boundaries_monotone [of "launchedMonthsAgo 0"
      "CURRENT_DATE - 0 * (1000 * 60 * 60 * 24 * 30)" "launchedMonthsAgo 6"
      "CURRENT_DATE - 6 * (1000 * 60 * 60 * 24 * 30)"]
    deploymentMaturity_boundaries_monotone [of "launchedMonthsAgo 6"
      "CURRENT_DATE - 6 * (1000 * 60 * 60 * 24 * 30)" "launchedMonthsAgo 24"
      "CURRENT_DATE - 24 * (1000 * 60 * 60 * 24 * 30)"]
    deploymentMaturity_boundaries_monotone [of "launchedMonthsAgo 12"
      "CURRENT_DATE - 12 * (1000 * 60 * 60 * 24 * 30)" "launchedMonthsAgo 24"
      "CURRENT_DATE - 24 * (1000 * 60 * 60 * 24 * 30)"]
    deploymentMaturity_boundaries_monotone [of "launchedMonthsAgo 24"
      "CURRENT_DATE - 24 * (1000 * 60 * 60 * 24 * 30)" "launchedMonthsAgo 24"
      "CURRENT_DATE - 24 * (1000 * 60 * 60 * 24 * 30)"]
  by (simp add: launchedMonthsAgo_def effectiveMonths_def monthsSinceLaunch_def CURRENT_DATE_def
      AI_ERA_START_def)

section \<open>Displacement scores: the shape of the result\<close>

lemmas eval_defs =
  scoreCompany_def byCategory_def DISPLACEMENT_CATEGORIES_def Math_log10_def
  getProperty_def propertyOr_def Object_prototype_names_def
  calculateDeploymentMaturity_def effectiveMonths_def monthsSinceLaunch_def adoptionCurve_def
  MONTHS_SINCE_AI_ERA_def CURRENT_DATE_def AI_ERA_START_def orDefault_def
  DISPLACEMENT_TYPE_MULT_def ENTERPRISE_MULT_def scoredCompanies_def
  totalRaw_def normalizedRows_def normalizeCompany_def Math_round_def toFixed_def
  calculateDisplacementScores_def company.extend_def scored.fields_def normalized.extend_def
  ranked.fields_def Let_def sampleCompany_def launch2023_def

lemma numOf_simps [simp]: "numOf (Num r) = r" "numOf NaN = 0"
  by (simp_all add: numOf_def)

lemma jsPlus_NaN [simp]: "jsPlus NaN x = NaN" "jsPlus x NaN = NaN"
  by (cases x; simp)+

lemma foldl_jsPlus_NaN: "foldl (\<lambda>sum c. jsPlus sum (f c)) NaN xs = NaN"
  by (induction xs) simp_all

lemma foldl_jsPlus_Num:
  "foldl (\<lambda>sum c. jsPlus sum (f c)) (Num a) xs = Num t \<Longrightarrow>
     (\<forall>s \<in> set xs. \<exists>r. f s = Num r) \<and> t = a + sum_list (map (\<lambda>s. numOf (f s)) xs)"
proof (induction xs arbitrary: a)
  case Nil
  then show ?case by simp
next
  case (Cons x xs)
  show ?case
  proof (cases "f x")
    case (Num r)
    with Cons.prems have "foldl (\<lambda>sum c. jsPlus sum (f c)) (Num (a + r)) xs = Num t" by simp
    from Cons.IH [OF this] Num show ?thesis by simp
  next
    case NaN
    with Cons.prems show ?thesis by (simp add: foldl_jsPlus_NaN)
  qed
qed

lemma totalRaw_Num:
  assumes "totalRaw xs = Num t"
  shows "\<forall>s \<in> set xs. \<exists>r. rawScore s = Num r"
    and "t = sum_list (map (\<lambda>s. numOf (rawScore s)) xs)"
  using foldl_jsPlus_Num [of rawScore 0 xs t] assms by (simp_all add: totalRaw_def)

lemma byCategory_known:
  assumes "map_of DISPLACEMENT_CATEGORIES k = Some cat"
  shows "getProperty (byCategory companies) k = Own (filter (\<lambda>c. category c = k) companies)"
proof -
  have "k \<in> set (map fst DISPLACEMENT_CATEGORIES)"
    using map_of_SomeD [OF assms] by force
  then have "byCategory companies k = Some (filter (\<lambda>c. category c = k) companies)"
    unfolding byCategory_def map_of_map_restrict by (simp only: restrict_in o_def)
  then show ?thesis by (simp add: getProperty_def)
qed

lemma Math_round_error: "\<bar>real_of_int (Math_round x) - x\<bar> \<le> 1 / 2"
  unfolding Math_round_def by linarith

lemma rounded_sum_error:
  "\<bar>real_of_int (sum_list (map (\<lambda>s. Math_round (g s)) xs)) - sum_list (map g xs)\<bar>
     \<le> real (length xs) / 2"
proof (induction xs)
  case Nil
  then show ?case by simp
next
  case (Cons x xs)
  define a where "a = real_of_int (Math_round (g x)) - g x"
  define b where
    "b = real_of_int (sum_list (map (\<lambda>s. Math_round (g s)) xs)) - sum_list (map g xs)"
  have "\<bar>a\<bar> \<le> 1 / 2" unfolding a_def by (rule Math_round_error)
  moreover have "\<bar>b\<bar> \<le> real (length xs) / 2" unfolding b_def by (rule Cons.IH)
  moreover have "\<bar>a + b\<bar> \<le> \<bar>a\<bar> + \<bar>b\<bar>" by (rule abs_triangle_ineq)
  ultimately have "\<bar>a + b\<bar> \<le> 1 / 2 + real (length xs) / 2" by linarith
  then have "\<bar>a + b\<bar> \<le> real (length (x # xs)) / 2" by (simp add: add_divide_distrib)
  moreover have "real_of_int (sum_list (map (\<lambda>s. Math_round (g s)) (x # xs)))
      - sum_list (map g (x # xs)) = a + b"
    by (simp add: a_def b_def)
  ultimately show ?case by simp
qed

lemma sum_list_scaled:
  fixes f :: "'a \<Rightarrow> real"
  shows "sum_list (map (\<lambda>s. T * (f s / d)) xs) = T * (sum_list (map f xs) / d)"
  by (induction xs) (simp_all add: algebra_simps add_divide_distrib)

lemma displacement_normalizeCompany:
  "displacement (normalizeCompany T tr s)
     = Math_round (T * (case tr of
          Num t \<Rightarrow> if t > 0 then (case rawScore s of Num r \<Rightarrow> r / t | NaN \<Rightarrow> 0) else 0
        | NaN \<Rightarrow> 0))"
  by (simp add: normalizeCompany_def Let_def)

lemma rawFactors_normalizeCompany [simp]: "rawFactors (normalizeCompany T tr s) = factors s"
  by (simp add: normalizeCompany_def Let_def)

lemma truncate_extend [simp]:
  "normalized.truncate (normalized.extend r (ranked.fields k)) = r"
  by (simp add: normalized.extend_def normalized.truncate_def ranked.fields_def)

lemma rank_extend [simp]: "rank (normalized.extend r (ranked.fields k)) = k"
  by (simp add: normalized.extend_def ranked.fields_def)

lemma displacement_truncate [simp]: "displacement (normalized.truncate r) = displacement r"
  by (simp add: normalized.truncate_def)

lemma number_rows:
  "map normalized.truncate
     (map (\<lambda>(index, r). normalized.extend r (ranked.fields (index + 1))) (enumerate n xs)) = xs"
  "map rank
     (map (\<lambda>(index, r). normalized.extend r (ranked.fields (index + 1))) (enumerate n xs))
     = [Suc n..<Suc (n + length xs)]"
proof -
  show "map normalized.truncate
     (map (\<lambda>(index, r). normalized.extend r (ranked.fields (index + 1))) (enumerate n xs)) = xs"
    by (induction xs arbitrary: n) simp_all
  show "map rank
     (map (\<lambda>(index, r). normalized.extend r (ranked.fields (index + 1))) (enumerate n xs))
     = [Suc n..<Suc (n + length xs)]"
    by (induction xs arbitrary: n) (simp_all add: upt_conv_Cons del: upt_Suc)
qed

text \<open>The result, when there is one, is made from the scored list of step 2.\<close>

lemma scores_result:
  "calculateDisplacementScores cs T = Inr rows \<longleftrightarrow>
     (\<exists>xs. scoredCompanies cs = Inr xs
        \<and> rows = map (\<lambda>(index, r). normalized.extend r (ranked.fields (index + 1)))
             (enumerate 0 (sort_key (\<lambda>r. - displacement r) (normalizedRows T xs))))"
  by (auto simp: calculateDisplacementScores_def Let_def split: sum.splits)

lemma scores_rows:
  assumes "calculateDisplacementScores cs T = Inr rows" and "scoredCompanies cs = Inr xs"
  shows "map normalized.truncate rows = sort_key (\<lambda>r. - displacement r) (normalizedRows T xs)"
    and "map rank rows = [1..<Suc (length rows)]"
    and "length rows = length xs"
proof -
  from assms have rows: "rows = map (\<lambda>(index, r). normalized.extend r (ranked.fields (index + 1)))
             (enumerate 0 (sort_key (\<lambda>r. - displacement r) (normalizedRows T xs)))"
    by (simp add: scores_result)
  show "map normalized.truncate rows = sort_key (\<lambda>r. - displacement r) (normalizedRows T xs)"
    unfolding rows by (rule number_rows(1))
  show "map rank rows = [1..<Suc (length rows)]"
    unfolding rows number_rows(2) by simp
  show "length rows = length xs"
    unfolding rows by (simp add: normalizedRows_def)
qed

lemma scores_displacements:
  assumes "calculateDisplacementScores cs T = Inr rows" and "scoredCompanies cs = Inr xs"
  shows "map displacement rows
     = map displacement (sort_key (\<lambda>r. - displacement r) (normalizedRows T xs))"
proof -
  have "map displacement rows = map displacement (map normalized.truncate rows)"
    by simp
  then show ?thesis by (simp only: scores_rows(1) [OF assms])
qed

lemma jsTimes_NaN [simp]: "jsTimes NaN x = NaN" "jsTimes x NaN = NaN"
  by (cases x; simp)+

lemma Math_round_zero [simp]: "Math_round 0 = 0"
  by (simp add: Math_round_def)

lemma inherited_not_own:
  "\<forall>k \<in> set Object_prototype_names.
     map_of DISPLACEMENT_CATEGORIES k = None \<and> DISPLACEMENT_TYPE_MULT k = None
     \<and> ENTERPRISE_MULT k = None"
  by (simp add: Object_prototype_names_def DISPLACEMENT_CATEGORIES_def
      DISPLACEMENT_TYPE_MULT_def ENTERPRISE_MULT_def)

lemma inherited_not_category:
  "k \<in> set Object_prototype_names \<Longrightarrow> map_of DISPLACEMENT_CATEGORIES k = None"
  using inherited_not_own by blast

lemma byCategory_unknown:
  "map_of DISPLACEMENT_CATEGORIES k = None \<Longrightarrow> byCategory companies k = None"
proof -
  assume "map_of DISPLACEMENT_CATEGORIES k = None"
  then have "k \<notin> set (map fst DISPLACEMENT_CATEGORIES)"
    by (simp add: map_of_eq_None_iff)
  then show ?thesis
    unfolding byCategory_def map_of_map_restrict by (rule restrict_out)
qed

text \<open>A category that names an inherited property makes the callback throw.\<close>

lemma scoreCompany_inherited_category:
  assumes "category c \<in> set Object_prototype_names"
  shows "scoreCompany cs c = Threw TypeError"
proof -
  have none: "map_of DISPLACEMENT_CATEGORIES (category c) = None"
    using assms by (rule inherited_not_category)
  have "getProperty (map_of DISPLACEMENT_CATEGORIES) (category c) = Inherited"
    using assms none by (simp add: getProperty_def)
  moreover have "getProperty (byCategory cs) (category c) = Inherited"
    using assms byCategory_unknown [OF none] by (simp add: getProperty_def)
  ultimately show ?thesis by (simp add: scoreCompany_def)
qed

lemma collectScored_Threw:
  "Threw e \<in> set outcomes \<Longrightarrow> \<exists>e'. collectScored outcomes = Inl e'"
  by (induction outcomes rule: collectScored.induct) (auto split: sum.splits)

lemma inherited_category_throws_always:
  assumes "c \<in> set cs" and "category c \<in> set Object_prototype_names"
  shows "\<exists>e. calculateDisplacementScores cs T = Inl e"
proof -
  have "Threw TypeError \<in> set (map (scoreCompany cs) cs)"
    using assms scoreCompany_inherited_category [OF assms(2), of cs] by force
  from collectScored_Threw [OF this] show ?thesis
    by (auto simp: calculateDisplacementScores_def scoredCompanies_def)
qed

lemma collectScored_member:
  "collectScored outcomes = Inr xs \<Longrightarrow> s \<in> set xs \<Longrightarrow> Scored s \<in> set outcomes"
proof (induction outcomes arbitrary: xs rule: collectScored.induct)
  case 1
  then show ?case by simp
next
  case (2 e rest)
  then show ?case by simp
next
  case (3 w rest)
  then show ?case by simp
next
  case (4 s' rest)
  then show ?case by (auto split: sum.splits)
qed

lemma scoreCompany_Scored:
  assumes "scoreCompany cs c = Scored s"
  shows "productLaunch s = productLaunch c"
    and "deploymentMaturity (factors s) = calculateDeploymentMaturity c"
    and "displacementTypeMult (factors s)
           = propertyOr DISPLACEMENT_TYPE_MULT (displacementType c) (5 / 10)"
    and "enterpriseFactor (factors s) = propertyOr ENTERPRISE_MULT (enterpriseLevel c) (6 / 10)"
    and "operationalFactor (factors s) = orDefault (operationalStatus c) 1"
    and "rawScore s =
           jsTimes
             (jsTimes
                (jsTimes
                   (jsTimes
                      (jsTimes (categoryAllocation (factors s)) (Num (marketShare (factors s))))
                      (Num (deploymentMaturity (factors s))))
                   (displacementTypeMult (factors s)))
                (Num (operationalFactor (factors s))))
             (enterpriseFactor (factors s))"
  using assms
  by (auto simp: scoreCompany_def Let_def company.extend_def scored.fields_def
      split: property.splits)

text \<open>
  What holds of an entity with no launch date whenever there is a result: its maturity
  is 0 and so is the attributed amount of its row.
\<close>

lemma no_launch_row_zero:
  assumes "scoredCompanies cs = Inr xs" and "s \<in> set xs" and "productLaunch s = None"
  shows "deploymentMaturity (factors s) = 0
    \<and> displacement (normalizeCompany T (totalRaw xs) s) = 0"
proof -
  from collectScored_member [OF assms(1) [unfolded scoredCompanies_def] assms(2)]
  obtain c where c: "scoreCompany cs c = Scored s" by auto
  from scoreCompany_Scored(1,2) [OF c] assms(3)
  have mat: "deploymentMaturity (factors s) = 0"
    by (simp add: calculateDeploymentMaturity_def)
  have "rawScore s = NaN \<or> rawScore s = Num 0"
    unfolding scoreCompany_Scored(6) [OF c] mat
    by (cases "categoryAllocation (factors s)"; cases "displacementTypeMult (factors s)";
        cases "enterpriseFactor (factors s)"; simp)
  then have "displacement (normalizeCompany T (totalRaw xs) s) = 0"
    by (auto simp: displacement_normalizeCompany split: jsnum.splits)
  with mat show ?thesis by simp
qed

text \<open>
  What holds of a type or tier that is in neither its table nor \<open>Object.prototype\<close>: the
  default 0.5 or 0.6.
\<close>

lemma unknown_type_or_tier_default:
  "displacementType c \<notin> {''direct'', ''augmentation'', ''infrastructure''} \<Longrightarrow>
     displacementType c \<notin> set Object_prototype_names \<Longrightarrow>
     propertyOr DISPLACEMENT_TYPE_MULT (displacementType c) (5 / 10) = Num (5 / 10)"
  "enterpriseLevel c \<notin> {''enterprise'', ''prosumer'', ''consumer''} \<Longrightarrow>
     enterpriseLevel c \<notin> set Object_prototype_names \<Longrightarrow>
     propertyOr ENTERPRISE_MULT (enterpriseLevel c) (6 / 10) = Num (6 / 10)"
  by (simp_all add: propertyOr_def getProperty_def DISPLACEMENT_TYPE_MULT_def ENTERPRISE_MULT_def)

lemma inherited_type_or_tier_NaN:
  "displacementType c \<in> set Object_prototype_names \<Longrightarrow>
     propertyOr DISPLACEMENT_TYPE_MULT (displacementType c) (5 / 10) = NaN"
  "enterpriseLevel c \<in> set Object_prototype_names \<Longrightarrow>
     propertyOr ENTERPRISE_MULT (enterpriseLevel c) (6 / 10) = NaN"
  using inherited_not_own by (simp_all add: propertyOr_def getProperty_def)

section \<open>Displacement scores: the claims\<close>



text \<open>
  C3.  When step 2 yields a scored list whose total raw score is positive, there is a
  result, and its attributed amounts add up to the target total \<open>T\<close> up to the number of
  scored entities: each amount is rounded by at most one unit (indeed by at most one
  half).
\<close>

theorem scores_sum_within_rounding:
  assumes "scoredCompanies cs = Inr xs" and "totalRaw xs = Num t" and "0 < t"
  shows "\<exists>rows. calculateDisplacementScores cs T = Inr rows
    \<and> \<bar>real_of_int (sum_list (map displacement rows)) - T\<bar> \<le> real (length rows)"
proof -
  from assms(1) obtain rows where rows: "calculateDisplacementScores cs T = Inr rows"
    by (auto simp: scores_result)
  let ?g = "\<lambda>s. T * (numOf (rawScore s) / t)"
  have nums: "\<forall>s \<in> set xs. \<exists>r. rawScore s = Num r"
    and t: "t = sum_list (map (\<lambda>s. numOf (rawScore s)) xs)"
    using totalRaw_Num [OF assms(2)] by blast+
  have row: "displacement (normalizeCompany T (Num t) s) = Math_round (?g s)" if "s \<in> set xs" for s
    using that nums assms(3) by (auto simp: displacement_normalizeCompany)
  have "sum_list (map displacement rows)
      = sum_mset (mset (map displacement
          (sort_key (\<lambda>r. - displacement r) (normalizedRows T xs))))"
    by (simp only: scores_displacements [OF rows assms(1)] sum_mset_sum_list)
  also have "\<dots> = sum_mset (mset (map displacement (normalizedRows T xs)))"
    by simp
  also have "\<dots> = sum_list (map displacement (normalizedRows T xs))"
    by (simp only: sum_mset_sum_list)
  also have "\<dots> = sum_list (map (\<lambda>s. Math_round (?g s)) xs)"
    using row by (simp add: normalizedRows_def assms(2) o_def cong: map_cong)
  finally have total: "sum_list (map displacement rows)
      = sum_list (map (\<lambda>s. Math_round (?g s)) xs)" .
  have "sum_list (map ?g xs) = T * (sum_list (map (\<lambda>s. numOf (rawScore s)) xs) / t)"
    by (rule sum_list_scaled)
  also have "\<dots> = T" using assms(3) t by simp
  finally have exact: "sum_list (map ?g xs) = T" .
  from rounded_sum_error [of ?g xs] have
    "\<bar>real_of_int (sum_list (map displacement rows)) - T\<bar> \<le> real (length rows)"
    unfolding total exact scores_rows(3) [OF rows assms(1)] by linarith
  with rows show ?thesis by blast
qed

text \<open>Three equal entities and a total of 1000: 333 each, one unit short of the total.\<close>

theorem scores_sum_within_rounding_witness:
  "\<exists>xs rows. scoredCompanies rosterThirds = Inr xs \<and> totalRaw xs = Num (2 / 10)
     \<and> calculateDisplacementScores rosterThirds 1000 = Inr rows
     \<and> map displacement rows = [333, 333, 333]
     \<and> \<bar>real_of_int (sum_list (map displacement rows)) - 1000\<bar> \<le> real (length rows)"
proof -
  have "\<exists>xs. scoredCompanies rosterThirds = Inr xs \<and> totalRaw xs = Num (2 / 10)"
    by (simp add: eval_defs rosterThirds_def)
  moreover have "\<exists>rows. calculateDisplacementScores rosterThirds 1000 = Inr rows
      \<and> map displacement rows = [333, 333, 333]"
    by (simp add: eval_defs rosterThirds_def)
  ultimately show ?thesis
  proof (elim exE conjE)
    fix xs rows
    assume xs: "scoredCompanies rosterThirds = Inr xs" and tr: "totalRaw xs = Num (2 / 10)"
      and rows: "calculateDisplacementScores rosterThirds 1000 = Inr rows"
      and vals: "map displacement rows = [333, 333, 333]"
    have pos: "(0::real) < 2 / 10" by simp
    from scores_sum_within_rounding [OF xs tr pos, of 1000] rows
    have "\<bar>real_of_int (sum_list (map displacement rows)) - 1000\<bar> \<le> real (length rows)"
      by simp
    with xs tr rows vals show ?thesis by (iprover intro: exI conjI)
  qed
qed

text \<open>
  C1, on the code.  The claim gives an entity with operational status 0 the attributed
  amount 0.  The code reads the status as \<open>company.operationalStatus || 1.0\<close>, and 0 is
  falsy: the status 0 counts as 1.  Of two entities that differ in their status only, 0
  and 1, each gets half of the total.
\<close>

theorem operational_zero_scored_as_full:
  "map operationalStatus rosterIdle = [Some 0, Some 1]
   \<and> (\<exists>rows. calculateDisplacementScores rosterIdle 1000 = Inr rows
        \<and> map (\<lambda>r. (r_name r, operationalFactor (rawFactors r), displacement r)) rows
          = [(''Idle'', 1, 500), (''Active'', 1, 500)])"
  by (simp add: eval_defs rosterIdle_def)

text \<open>
  C7, on the code.  The claim lets an entity with no launch date get the amount 0 while
  all the other entities are still scored.  So it is when the third entity of the roster
  has the unknown category \<open>gardening\<close>: that one is dropped, the launched entity gets
  the total and the one with no launch date is ranked with 0.  When the third entity has
  the category \<open>constructor\<close>, a name that \<open>DISPLACEMENT_CATEGORIES\<close> inherits, the guard
  for unknown categories lets it pass and the function throws a TypeError: no entity is
  scored.
\<close>

theorem inherited_category_throws:
  "map productLaunch (rosterWithCategory ''constructor'') = [None, Some launch2023, Some launch2023]
   \<and> map category (rosterWithCategory ''constructor'') = [''coding'', ''coding'', ''constructor'']
   \<and> calculateDisplacementScores (rosterWithCategory ''constructor'') 1000 = Inl TypeError
   \<and> (\<exists>rows. calculateDisplacementScores (rosterWithCategory ''gardening'') 1000 = Inr rows
        \<and> map (\<lambda>r. (r_name r, displacement r, rank r)) rows
          = [(''Shop'', 1000, 1), (''Lab'', 0, 2)])"
  by (simp add: eval_defs rosterWithCategory_def)

text \<open>
  C10, on the code.  The claim gives an entity whose displacement type is in no table the
  multiplier 0.5.  So it is for the type \<open>hybrid\<close>: the entity gets 200 of 1000 beside
  two direct ones with 400 each.  For the type \<open>constructor\<close>, a name that
  \<open>DISPLACEMENT_TYPE_MULT\<close> inherits, the lookup finds a function, the default is not
  taken, the raw score and the total are NaN, and every entity of the roster gets 0.
\<close>

theorem inherited_type_not_defaulted:
  "map displacementType (rosterWithType ''constructor'') = [''direct'', ''constructor'', ''direct'']
   \<and> (\<exists>rows. calculateDisplacementScores (rosterWithType ''constructor'') 1000 = Inr rows
        \<and> map (\<lambda>r. (r_name r, displacementTypeMult (rawFactors r), displacement r)) rows
          = [(''A'', Num 1, 0), (''B'', NaN, 0), (''C'', Num 1, 0)])
   \<and> (\<exists>rows. calculateDisplacementScores (rosterWithType ''hybrid'') 1000 = Inr rows
        \<and> map (\<lambda>r. (r_name r, displacementTypeMult (rawFactors r), displacement r)) rows
          = [(''A'', Num 1, 400), (''C'', Num 1, 400), (''B'', Num (5 / 10), 200)])"
  by (simp add: eval_defs rosterWithType_def)

section \<open>Refresh and recomputation\<close>

lemmas calc_eval =
  calculatedAt_def calculateAIDisplacement_def liveData_total_def liveData_initial_def
  seriesValue_def industries_def orDefault_def otherModel_def startDateMs_def Math_round_def
  toFixed_def Let_def

text \<open>
  A total of 1500000 gives 2500 per day.  On 2026-02-01, day 1127 since the start date,
  the historical total is 2817500; one hour into 2023-01-01 it is 0, a day later 2500.
\<close>

lemma calculatedAt_values:
  "perSecond (calculatedAt 1769904000000 1500000) = 25 / 864"
  "historicalMid (calculatedAt 1769904000000 1500000) = Some 2817500"
  "perSecond (calculatedAt 1672534800000 1500000) = 25 / 864"
  "historicalMid (calculatedAt 1672534800000 1500000) = Some 0"
  "perSecond (calculatedAt 1672617600000 1500000) = 25 / 864"
  "historicalMid (calculatedAt 1672617600000 1500000) = Some 2500"
  by (simp_all add: calc_eval)

lemma fred_calculateAIDisplacement [simp]: "fred (calculateAIDisplacement now ld) = fred ld"
  by (simp add: calculateAIDisplacement_def Let_def split: prod.splits)

lemma industries_modelled: "\<forall>ind \<in> set industries. AI_EXPOSURE_MODEL ind \<noteq> None"
  by (simp add: industries_def AI_EXPOSURE_MODEL_def)

lemma otherModel_entry: "AI_EXPOSURE_MODEL ''other'' = Some otherModel"
  by (simp add: AI_EXPOSURE_MODEL_def otherModel_def)

lemma storedEntry_simps:
  "storedEntry (FetchError msg) =
     \<lparr>s_value = None, s_average = None, s_date = None, s_error = Some msg\<rparr>"
  "storedEntry (FetchOk latest average date history) =
     \<lparr>s_value = Some latest, s_average = Some average, s_date = Some date, s_error = None\<rparr>"
  by (simp_all add: storedEntry_def)

lemma storeResults_Cons:
  "r \<noteq> FetchError [] \<Longrightarrow>
     storeResults ((key, r) # rest) m errs
       = storeResults rest (m(key \<mapsto> storedEntry r)) (errs @ newErrors key r)"
  "storeResults ((key, FetchError []) # rest) m errs
       = (m(key \<mapsto> \<lparr>s_value = None, s_average = None, s_date = None, s_error = None\<rparr>), None)"
  by (cases r; simp add: storedEntry_simps newErrors_def)+

lemma storeResults_completes:
  "\<forall>kr \<in> set results. snd kr \<noteq> FetchError [] \<Longrightarrow>
     \<exists>m' errs'. storeResults results m errs = (m', Some errs')"
proof (induction results arbitrary: m errs)
  case Nil
  then show ?case by simp
next
  case (Cons kr rest)
  obtain key r where kr: "kr = (key, r)" by (cases kr)
  from Cons.prems have rest: "\<forall>kr \<in> set rest. snd kr \<noteq> FetchError []" by simp
  from Cons.prems kr have "r \<noteq> FetchError []" by simp
  then have "storeResults (kr # rest) m errs
      = storeResults rest (m(key \<mapsto> storedEntry r)) (errs @ newErrors key r)"
    unfolding kr by (rule storeResults_Cons(1))
  with Cons.IH [OF rest, of "m(key \<mapsto> storedEntry r)" "errs @ newErrors key r"]
  show ?case by (simp only:)
qed

lemma storeResults_step:
  assumes "storeResults ((key, r) # rest) m errs = (m', Some errs')"
  shows "storeResults rest (m(key \<mapsto> storedEntry r)) (errs @ newErrors key r) = (m', Some errs')"
proof (cases "r = FetchError []")
  case True
  with assms show ?thesis by (simp only: storeResults_Cons(2)) simp
next
  case False
  from storeResults_Cons(1) [OF False, of key rest m errs] assms show ?thesis by (simp only:)
qed

lemma storeResults_untouched:
  "storeResults results m errs = (m', Some errs') \<Longrightarrow> key \<notin> fst ` set results \<Longrightarrow>
     m' key = m key"
proof (induction results arbitrary: m errs)
  case Nil
  then show ?case by simp
next
  case (Cons kr rest)
  obtain k r where kr: "kr = (k, r)" by (cases kr)
  from Cons.prems(1) have
    "storeResults rest (m(k \<mapsto> storedEntry r)) (errs @ newErrors k r) = (m', Some errs')"
    unfolding kr by (rule storeResults_step)
  from Cons.IH [OF this] Cons.prems(2) have "m' key = (m(k \<mapsto> storedEntry r)) key" by simp
  moreover from Cons.prems(2) kr have "key \<noteq> k" by auto
  ultimately show ?case by simp
qed

lemma storeResults_stored:
  "storeResults results m errs = (m', Some errs') \<Longrightarrow> distinct (map fst results) \<Longrightarrow>
     (key, r) \<in> set results \<Longrightarrow> m' key = Some (storedEntry r)"
proof (induction results arbitrary: m errs)
  case Nil
  then show ?case by simp
next
  case (Cons kr rest)
  obtain k r0 where kr: "kr = (k, r0)" by (cases kr)
  from Cons.prems(1) have
    step: "storeResults rest (m(k \<mapsto> storedEntry r0)) (errs @ newErrors k r0) = (m', Some errs')"
    unfolding kr by (rule storeResults_step)
  show ?case
  proof (cases "(key, r) \<in> set rest")
    case True
    from Cons.prems(2) have "distinct (map fst rest)" by simp
    from Cons.IH [OF step this True] show ?thesis .
  next
    case False
    with Cons.prems(3) kr have eq: "key = k" "r = r0" by auto
    from Cons.prems(2) kr have "k \<notin> fst ` set rest" by simp
    from storeResults_untouched [OF step this] eq show ?thesis by simp
  qed
qed

lemma storeResults_errors:
  "storeResults results m errs = (m', Some errs') \<Longrightarrow>
     errs' = errs @ concat (map (\<lambda>(key, r). newErrors key r) results)"
proof (induction results arbitrary: m errs)
  case Nil
  then show ?case by simp
next
  case (Cons kr rest)
  obtain k r0 where kr: "kr = (k, r0)" by (cases kr)
  from Cons.prems have
    step: "storeResults rest (m(k \<mapsto> storedEntry r0)) (errs @ newErrors k r0) = (m', Some errs')"
    unfolding kr by (rule storeResults_step)
  from Cons.IH [OF step] kr show ?case by simp
qed

lemma newErrors_listed:
  "(k, r) \<in> set xs \<Longrightarrow> e \<in> set (newErrors k r) \<Longrightarrow>
     e \<in> set (concat (map (\<lambda>(key, r). newErrors key r) xs))"
  by (induction xs) auto

lemma FRED_SERIES_distinct: "distinct (map fst FRED_SERIES)"
  by (simp add: FRED_SERIES_def)

text \<open>The refresh returns normally when no failed fetch has an empty message.\<close>

lemma fetchAllData_completes:
  assumes "\<forall>ks \<in> set FRED_SERIES. fetchFredSeries (snd ks) \<noteq> FetchError []"
  shows "\<exists>m' errs'.
     storeResults (map (\<lambda>(key, seriesId). (key, fetchFredSeries seriesId)) FRED_SERIES)
       (series (fred ld)) [] = (m', Some errs')
     \<and> fetchAllData fetchFredSeries now ld =
         (calculateAIDisplacement now
            (ld\<lparr>fred := \<lparr>series = m', fetchedAt = Some now, errors = errs'\<rparr>\<rparr>),
          Inr (errs' = []))"
proof -
  have "\<forall>kr \<in> set (map (\<lambda>(key, seriesId). (key, fetchFredSeries seriesId)) FRED_SERIES).
      snd kr \<noteq> FetchError []"
    using assms by auto
  from storeResults_completes [OF this, of "series (fred ld)" "[]"]
  obtain m' errs' where
    "storeResults (map (\<lambda>(key, seriesId). (key, fetchFredSeries seriesId)) FRED_SERIES)
       (series (fred ld)) [] = (m', Some errs')"
    by blast
  then show ?thesis by (simp add: fetchAllData_def Let_def)
qed

lemmas fetch_eval =
  fetchAllData_def FRED_SERIES_def fetchInformationFails_def liveData_good_def
  liveData_initial_def seriesValue_def

text \<open>
  C2, as the code has it.  The claim keeps the last good value of a series whose fetch
  fails.  The loop of \<open>fetchAllData\<close> writes \<open>{ value: null, date: null, error }\<close> over the
  entry: with 50000 stored for the information series, a refresh in which this one fetch
  fails with \<open>HTTP 500\<close> leaves the series without a value.
\<close>

theorem failed_series_loses_last_value:
  "seriesValue (fred liveData_good) ''information'' = Some 50000
   \<and> seriesValue (fred (fst (fetchAllData fetchInformationFails 1769904000000 liveData_good)))
        ''information'' = None"
  by (simp add: fetch_eval)

text \<open>
  C2, amended.  For every refresh in which no failed fetch has an empty error message,
  and every tracked series: if fetching that single series fails, its stored entry is
  replaced by one with no value and no date that carries the error message, and the
  error is listed in \<open>liveData.fred.errors\<close>; the refresh does not fail as a whole: it
  returns \<open>false\<close>, and every series fetched successfully is stored with its new value.
\<close>

theorem failed_series_overwritten_refresh_completes:
  assumes "(key, seriesId) \<in> set FRED_SERIES"
    and "fetchFredSeries seriesId = FetchError msg"
    and "\<forall>ks \<in> set FRED_SERIES. fetchFredSeries (snd ks) \<noteq> FetchError []"
  shows "series (fred (fst (fetchAllData fetchFredSeries now ld))) key
      = Some \<lparr>s_value = None, s_average = None, s_date = None, s_error = Some msg\<rparr>
    \<and> key @ '': '' @ msg \<in> set (errors (fred (fst (fetchAllData fetchFredSeries now ld))))
    \<and> snd (fetchAllData fetchFredSeries now ld) = Inr False
    \<and> (\<forall>key' seriesId' latest average date history.
          (key', seriesId') \<in> set FRED_SERIES
          \<and> fetchFredSeries seriesId' = FetchOk latest average date history
          \<longrightarrow> series (fred (fst (fetchAllData fetchFredSeries now ld))) key'
              = Some \<lparr>s_value = Some latest, s_average = Some average, s_date = Some date,
                  s_error = None\<rparr>)"
proof -
  let ?results = "map (\<lambda>(key, seriesId). (key, fetchFredSeries seriesId)) FRED_SERIES"
  from fetchAllData_completes [OF assms(3), of ld now] obtain m' errs' where
    store: "storeResults ?results (series (fred ld)) [] = (m', Some errs')"
    and res: "fetchAllData fetchFredSeries now ld =
         (calculateAIDisplacement now
            (ld\<lparr>fred := \<lparr>series = m', fetchedAt = Some now, errors = errs'\<rparr>\<rparr>),
          Inr (errs' = []))"
    by blast
  have dist: "distinct (map fst ?results)"
    using FRED_SERIES_distinct by (simp add: o_def case_prod_unfold)
  have mem: "(k, fetchFredSeries s) \<in> set ?results" if "(k, s) \<in> set FRED_SERIES" for k s
    using that by force
  have stored: "m' k = Some (storedEntry (fetchFredSeries s))"
    if "(k, s) \<in> set FRED_SERIES" for k s
    using storeResults_stored [OF store dist mem [OF that]] .
  have errs: "errs' = concat (map (\<lambda>(key, r). newErrors key r) ?results)"
    using storeResults_errors [OF store] by simp
  have "key @ '': '' @ msg \<in> set (newErrors key (fetchFredSeries seriesId))"
    by (simp add: assms(2) newErrors_def)
  with mem [OF assms(1)] have in_errs: "key @ '': '' @ msg \<in> set errs'"
    unfolding errs by (rule newErrors_listed)
  then have "errs' \<noteq> []" by auto
  have ok: "m' k = Some \<lparr>s_value = Some latest, s_average = Some average,
      s_date = Some date, s_error = None\<rparr>"
    if "(k, s) \<in> set FRED_SERIES" and "fetchFredSeries s = FetchOk latest average date history"
    for k s latest average date history
    using stored [OF that(1)] that(2) by (simp add: storedEntry_simps)
  have failed: "m' key
      = Some \<lparr>s_value = None, s_average = None, s_date = None, s_error = Some msg\<rparr>"
    using stored [OF assms(1)] assms(2) by (simp add: storedEntry_simps)
  from failed in_errs \<open>errs' \<noteq> []\<close> ok show ?thesis
    unfolding res by (simp only: fst_conv snd_conv fred_calculateAIDisplacement) auto
qed

text \<open>
  The refresh in which only the information series fails: its entry holds the error and
  no value, the total series holds its new value, and the refresh returns \<open>false\<close>.
\<close>

theorem failed_series_overwritten_refresh_completes_witness:
  "series (fred (fst (fetchAllData fetchInformationFails 1769904000000 liveData_good)))
      ''information''
     = Some \<lparr>s_value = None, s_average = None, s_date = None, s_error = Some ''HTTP 500''\<rparr>
   \<and> errors (fred (fst (fetchAllData fetchInformationFails 1769904000000 liveData_good)))
     = [''information: HTTP 500'']
   \<and> snd (fetchAllData fetchInformationFails 1769904000000 liveData_good) = Inr False
   \<and> seriesValue (fred (fst (fetchAllData fetchInformationFails 1769904000000 liveData_good)))
        ''total'' = Some 1500000"
  using failed_series_overwritten_refresh_completes [of "''information''" "''JTU5100LDL''"
      fetchInformationFails "''HTTP 500''" 1769904000000 liveData_good]
  by (simp add: fetch_eval)

text \<open>
  C6.  When \<open>calculateAIDisplacement\<close> runs while the total series is missing, has no
  value or has the value 0, it returns without writing: the whole state is as before,
  and with it every rate and every historical total in \<open>liveData.calculated\<close>.
\<close>

theorem recompute_without_total_keeps_rates:
  assumes "series (fred ld) ''total'' = None
     \<or> (\<exists>entry. series (fred ld) ''total'' = Some entry
           \<and> (s_value entry = None \<or> s_value entry = Some 0))"
  shows "calculateAIDisplacement now ld = ld"
  using assms by (auto simp: calculateAIDisplacement_def seriesValue_def orDefault_def)

text \<open>
  Rates from an earlier refresh and a total series without a value: six hours later the
  rate is still 25/864 per second and the historical total 2817500.
\<close>

theorem recompute_without_total_keeps_rates_witness:
  "perSecond (calculated (calculateAIDisplacement 1769925600000 liveData_stale)) = 25 / 864
   \<and> historicalMid (calculated (calculateAIDisplacement 1769925600000 liveData_stale))
       = Some 2817500
   \<and> calculateAIDisplacement 1769925600000 liveData_stale = liveData_stale"
proof -
  have unavailable: "series (fred liveData_stale) ''total'' = None
     \<or> (\<exists>entry. series (fred liveData_stale) ''total'' = Some entry
           \<and> (s_value entry = None \<or> s_value entry = Some 0))"
    by (simp add: liveData_stale_def liveData_initial_def)
  have before: "calculated liveData_stale = calculatedAt 1769904000000 1500000"
    by (simp add: liveData_stale_def calculatedAt_def)
  from recompute_without_total_keeps_rates [OF unavailable, of 1769925600000] before
  show ?thesis by (simp add: calculatedAt_values)
qed

section \<open>The counter\<close>

declare carry.simps [simp del]

lemma carry_below_one: "f < 1 \<Longrightarrow> carry v f = (v, f)"
  by (simp add: carry.simps)

lemma carry_invariant:
  "0 \<le> f \<Longrightarrow> v \<le> fst (carry v f) \<and> 0 \<le> snd (carry v f) \<and> snd (carry v f) < 1"
proof (induction v f rule: carry.induct)
  case (1 v f)
  show ?case
  proof (cases "1 \<le> f")
    case True
    then have "0 \<le> f - 1" by simp
    from "1.IH" [OF True this] True show ?thesis
      by (subst (1 2 3) carry.simps) auto
  next
    case False
    with "1.prems" show ?thesis by (simp add: carry_below_one)
  qed
qed

lemma carry_upper: "snd (carry v f) < 1"
proof (induction v f rule: carry.induct)
  case (1 v f)
  show ?case
  proof (cases "1 \<le> f")
    case True
    from "1.IH" [OF True] True show ?thesis by (subst carry.simps) auto
  next
    case False
    then show ?thesis by (simp add: carry_below_one)
  qed
qed

lemma jitter_nonneg: "0 \<le> r \<Longrightarrow> 0 \<le> 1 + (r - 5 / 10) * (2 / 10 :: real)"
  by (simp add: field_simps)

lemma initialize_seeds:
  "historicalMidPositive calc \<Longrightarrow>
     0 < value (initialize calc c) \<and> initialized (initialize calc c)
     \<and> fraction (initialize calc c) = fraction c \<and> lastTick (initialize calc c) = lastTick c
     \<and> historicalMid calc = Some (value (initialize calc c))"
  by (auto simp: historicalMidPositive_def initialize_def split: option.splits)

text \<open>
  C4, as the code has it.  The claim lets the integer value never decrease on any tick.
  A tick of a counter that is not yet initialized first seeds it: it overwrites the value
  with \<open>historicalMid\<close>, whatever the value was.  Take a counter created at the start
  date, 2023-01-01, and rates computed one hour later from a total of 1500000: the
  historical total is 0, so nothing seeds the counter, and the rate is 2500 per day.  A
  tick one day after the creation, with the draw 0.9 (jitter 1.08), counts 2700.  The
  rates are computed again, now with the historical total 2500; the next tick seeds the
  counter and sets the value back to 2500.
\<close>

theorem tick_seeding_decreases_value:
  "value (tick (calculatedAt 1672534800000 1500000) 1672617600000 (9 / 10)
       (Counter_new 1672531200000)) = 2700
   \<and> value (tick (calculatedAt 1672617600000 1500000) 1672617600100 (1 / 2)
        (tick (calculatedAt 1672534800000 1500000) 1672617600000 (9 / 10)
           (Counter_new 1672531200000))) = 2500"
  by (simp add: calculatedAt_values tick_def orDefault_def historicalMidPositive_def
      initialize_def Counter_new_def carry.simps)

text \<open>
  C4, amended.  For every tick with non-negative elapsed time and a random draw in
  \<open>[0, 1)\<close>, from a state with a non-negative integer value and a remainder in \<open>[0, 1)\<close>:
  afterwards the integer value is non-negative and the remainder lies in \<open>[0, 1)\<close>; the
  value does not decrease when the tick does not seed the counter (it is initialized
  already, or \<open>historicalMid\<close> is not positive); and on a seeding tick the value is at
  least the seed \<open>historicalMid\<close>.  This holds for every rate (a rate that is not positive
  adds nothing).
\<close>

theorem tick_invariant:
  assumes "lastTick c \<le> now" and "0 \<le> random" and "random < 1"
    and "0 \<le> fraction c" and "fraction c < 1" and "0 \<le> value c"
  shows "0 \<le> value (tick calc now random c)
    \<and> 0 \<le> fraction (tick calc now random c) \<and> fraction (tick calc now random c) < 1
    \<and> (initialized c \<or> \<not> historicalMidPositive calc \<longrightarrow>
         value c \<le> value (tick calc now random c))
    \<and> (\<not> initialized c \<and> historicalMidPositive calc \<longrightarrow>
         (\<exists>h. historicalMid calc = Some h \<and> h \<le> value (tick calc now random c)))"
proof -
  define c1 where
    "c1 = (if \<not> initialized c \<and> historicalMidPositive calc then initialize calc c else c)"
  define inc where
    "inc = perSecond calc * (real_of_int (now - lastTick c1) / 1000)
             * (1 + (random - 5 / 10) * (2 / 10))"
  have c1_props: "0 \<le> value c1" "fraction c1 = fraction c" "lastTick c1 = lastTick c"
    using assms initialize_seeds [of calc c] by (auto simp: c1_def)
  have c1_same: "initialized c \<or> \<not> historicalMidPositive calc \<Longrightarrow> c1 = c"
    by (auto simp: c1_def)
  have c1_seed:
    "\<not> initialized c \<and> historicalMidPositive calc \<Longrightarrow> historicalMid calc = Some (value c1)"
    using initialize_seeds [of calc c] by (auto simp: c1_def)
  have tick_eq: "tick calc now random c =
    (if perSecond calc > 0 then
       c1\<lparr>lastTick := now, value := fst (carry (value c1) (fraction c1 + inc)),
          fraction := snd (carry (value c1) (fraction c1 + inc))\<rparr>
     else c1\<lparr>lastTick := now\<rparr>)"
    by (simp add: tick_def c1_def inc_def orDefault_def Let_def split: prod.splits)
  show ?thesis
  proof (cases "perSecond calc > 0")
    case True
    have "0 \<le> inc"
      unfolding inc_def using True assms(1,2) c1_props(3) jitter_nonneg [OF assms(2)]
      by (intro mult_nonneg_nonneg) auto
    then have "0 \<le> fraction c1 + inc" using assms(4) c1_props(2) by simp
    from carry_invariant [OF this, of "value c1"] True c1_props c1_same c1_seed
    show ?thesis by (auto simp: tick_eq)
  next
    case False
    with assms c1_props c1_same c1_seed show ?thesis by (auto simp: tick_eq)
  qed
qed

text \<open>
  An initialized counter at 2817500 and one half, 86.4 seconds at 2500 per day with the
  middle draw: two and a half units are added, three whole units are carried.
\<close>

theorem tick_invariant_witness:
  "value (tick (calculatedAt 1769904000000 1500000) 1769904086400 (1 / 2)
      \<lparr>value = 2817500, fraction = 1 / 2, lastTick = 1769904000000, initialized = True\<rparr>)
     = 2817503
   \<and> fraction (tick (calculatedAt 1769904000000 1500000) 1769904086400 (1 / 2)
      \<lparr>value = 2817500, fraction = 1 / 2, lastTick = 1769904000000, initialized = True\<rparr>)
     = 0"
  using tick_invariant [of
      "\<lparr>value = 2817500, fraction = 1 / 2, lastTick = 1769904000000, initialized = True\<rparr>"
      1769904086400 "1 / 2" "calculatedAt 1769904000000 1500000"]
  by (simp add: calculatedAt_values tick_def orDefault_def historicalMidPositive_def
      carry.simps)

lemma tick_zero_noop:
  assumes "fraction c < 1" and "initialized c \<or> \<not> historicalMidPositive calc"
  shows "tick calc (lastTick c) random c = c"
  using assms by (auto simp: tick_def Let_def orDefault_def carry_below_one)

lemma ticks_zero_noop:
  assumes "fraction c < 1" and "initialized c \<or> \<not> historicalMidPositive calc"
    and "\<forall>t \<in> set ts. fst t = lastTick c"
  shows "ticks calc ts c = c"
  using assms
proof (induction ts)
  case Nil
  then show ?case by simp
next
  case (Cons t ts)
  obtain now r where t: "t = (now, r)" by (cases t)
  with Cons.prems have "now = lastTick c" by simp
  with Cons t show ?case by (simp add: tick_zero_noop)
qed

lemma tick_zero_idem:
  "value (tick calc (lastTick c) r2 (tick calc (lastTick c) r1 c))
     = value (tick calc (lastTick c) r1 c)
   \<and> fraction (tick calc (lastTick c) r2 (tick calc (lastTick c) r1 c))
     = fraction (tick calc (lastTick c) r1 c)"
proof -
  let ?c' = "tick calc (lastTick c) r1 c"
  have lt: "lastTick ?c' = lastTick c"
    by (auto simp: tick_def Let_def split: prod.splits)
  have ini: "initialized ?c' \<or> \<not> historicalMidPositive calc"
    using initialize_seeds [of calc c] by (auto simp: tick_def Let_def split: prod.splits)
  show ?thesis
  proof (cases "perSecond calc > 0")
    case True
    then have "fraction ?c' < 1"
      using carry_upper by (auto simp: tick_def Let_def orDefault_def split: prod.splits dest: sndI)
    from tick_zero_noop [OF this ini, of r2] lt show ?thesis by simp
  next
    case False
    then show ?thesis
      by (auto simp: tick_def Let_def orDefault_def initialize_def historicalMidPositive_def
          split: option.splits)
  qed
qed

text \<open>
  C9, as the code has it.  The claim makes a tick with elapsed time 0 a no-op on every
  starting state.  On a fresh counter, a tick at the very instant of its creation (elapsed
  time 0) that finds the historical total 2817500, computed on 2026-02-01 from a total of
  1500000, seeds the counter: the value goes from 0 to 2817500.
\<close>

theorem tick_zero_seeds_fresh_counter:
  "value (Counter_new 1769904000000) = 0
   \<and> value (tick (calculatedAt 1769904000000 1500000) (lastTick (Counter_new 1769904000000))
        (1 / 2) (Counter_new 1769904000000)) = 2817500"
  by (simp add: calculatedAt_values tick_def orDefault_def historicalMidPositive_def
      initialize_def Counter_new_def carry.simps)

text \<open>
  C9, amended.  For every rate and every starting state whose remainder is below 1 and
  that the tick does not seed (it is initialized already, or \<open>historicalMid\<close> is not
  positive), any number of ticks with elapsed time 0 leave the integer value and the
  remainder as they were.  For every starting state and rate, a second tick with elapsed
  time 0 changes neither after the first.
\<close>

theorem tick_zero_elapsed:
  "(fraction c < 1 \<and> (initialized c \<or> \<not> historicalMidPositive calc)
      \<and> (\<forall>t \<in> set ts. fst t = lastTick c)
    \<longrightarrow> value (ticks calc ts c) = value c \<and> fraction (ticks calc ts c) = fraction c)
   \<and> value (tick calc (lastTick c) r2 (tick calc (lastTick c) r1 c))
       = value (tick calc (lastTick c) r1 c)
   \<and> fraction (tick calc (lastTick c) r2 (tick calc (lastTick c) r1 c))
       = fraction (tick calc (lastTick c) r1 c)"
  using ticks_zero_noop [of c calc ts] tick_zero_idem [of calc c r2 r1] by simp

text \<open>Three ticks at the instant of the last one, on an initialized counter.\<close>

theorem tick_zero_elapsed_witness:
  "value (ticks (calculatedAt 1769904000000 1500000)
      [(1769904000000, 0), (1769904000000, 1 / 2), (1769904000000, 9 / 10)]
      \<lparr>value = 2817500, fraction = 1 / 2, lastTick = 1769904000000, initialized = True\<rparr>)
     = 2817500
   \<and> fraction (ticks (calculatedAt 1769904000000 1500000)
      [(1769904000000, 0), (1769904000000, 1 / 2), (1769904000000, 9 / 10)]
      \<lparr>value = 2817500, fraction = 1 / 2, lastTick = 1769904000000, initialized = True\<rparr>)
     = 1 / 2"
  using tick_zero_elapsed [of
      "\<lparr>value = 2817500, fraction = 1 / 2, lastTick = 1769904000000, initialized = True\<rparr>"
      "calculatedAt 1769904000000 1500000"
      "[(1769904000000, 0), (1769904000000, 1 / 2), (1769904000000, 9 / 10)]"]
  by simp

end
